theory Spec2Isabelle
  imports Main "HOL-Library.Word"
begin

section \<open>Errors\<close>

text \<open>
  Go's \<^verbatim>\<open>error\<close> values, as far as \<^verbatim>\<open>jsonfiledb.go\<close> produces or forwards them.
  \<^item> \<open>Custom\<close>: an error made by the caller (\<^verbatim>\<open>fmt.Errorf("rollback")\<close>), named by its text;
  \<^item> \<open>JSONError\<close>: what \<^verbatim>\<open>json.Marshal\<close> or \<^verbatim>\<open>json.Unmarshal\<close> returned;
  \<^item> \<open>Errno\<close>: a bare error of the operating system; these are also the sentinels
    \<^verbatim>\<open>os.ErrNotExist\<close>, \<^verbatim>\<open>os.ErrExist\<close> and \<^verbatim>\<open>os.ErrPermission\<close>;
  \<^item> \<open>PathError\<close>: the \<^verbatim>\<open>*fs.PathError\<close> (for rename, \<^verbatim>\<open>*os.LinkError\<close>) of package os:
    the failing operation and the error below it;
  \<^item> \<open>Wrapf\<close>: \<^verbatim>\<open>fmt.Errorf(prefix + "%w", err)\<close>, the prefix and the wrapped error.
\<close>

datatype oserr = ENOENT | EEXIST | EACCES | EOTHER string

datatype jsonerr = JSONErr string

datatype error =
    Custom string
  | JSONError jsonerr
  | Errno oserr
  | PathError string oserr
  | Wrapf string error

abbreviation os_ErrNotExist :: error where "os_ErrNotExist \<equiv> Errno ENOENT"
abbreviation os_ErrExist :: error where "os_ErrExist \<equiv> Errno EEXIST"
abbreviation os_ErrPermission :: error where "os_ErrPermission \<equiv> Errno EACCES"

text \<open>
  \<^verbatim>\<open>errors.Is(err, target)\<close>: \<open>err\<close> or an error it wraps is \<open>target\<close>. A \<open>PathError\<close>
  unwraps to its errno.
\<close>

fun errors_Is :: "error \<Rightarrow> error \<Rightarrow> bool" where
  "errors_Is (Wrapf s e) t = (Wrapf s e = t \<or> errors_Is e t)"
| "errors_Is (PathError opn k) t = (PathError opn k = t \<or> Errno k = t)"
| "errors_Is e t = (e = t)"

text \<open>
  \<^verbatim>\<open>os.IsNotExist(err)\<close>, which is older than \<^verbatim>\<open>errors.Is\<close>: it looks below a
  \<open>PathError\<close>, and not below an error that \<^verbatim>\<open>fmt.Errorf\<close> wrapped.
\<close>

fun os_IsNotExist :: "error \<Rightarrow> bool" where
  "os_IsNotExist (PathError opn k) = (k = ENOENT)"
| "os_IsNotExist (Errno k) = (k = ENOENT)"
| "os_IsNotExist e = False"

text \<open>The prefix that the outermost \<^verbatim>\<open>fmt.Errorf\<close> put before the wrapped error, if any.\<close>

fun context_of :: "error \<Rightarrow> string option" where
  "context_of (Wrapf s e) = Some s"
| "context_of e = None"

section \<open>The file system that package os works on\<close>

text \<open>
  The operating system is not part of the repository. It is modelled as a tree of named
  nodes, a cleaned path being the list of its elements, and the failures that the
  system alone decides (permissions, a full disk, an interrupted call) are taken from an
  environment \<open>env\<close> that says, for one call, which step fails and how. With no fault
  in the environment the operations behave as on a healthy file system.
\<close>

type_synonym path = "string list"

datatype node = File string | Dir

type_synonym filesystem = "path \<rightharpoonup> node"

record env =
  rnd :: "string list"
  temp_fault :: "oserr option"
  write_fault :: "(nat \<times> oserr) option"
  close_fault :: "oserr option"
  rename_fault :: "oserr option"
  read_fault :: "oserr option"

text \<open>\<^verbatim>\<open>filepath.Dir\<close> and \<^verbatim>\<open>filepath.Base\<close>; the base of the empty path is \<^verbatim>\<open>"."\<close>.\<close>

definition Dir_of :: "path \<Rightarrow> path" where
  "Dir_of p = butlast p"

definition Base :: "path \<Rightarrow> string" where
  "Base p = (if p = [] then ''.'' else last p)"

text \<open>
  A path cannot be followed through a regular file: \<open>under_file fs q p\<close> says that
  \<open>q\<close>, or a longer proper prefix of \<open>q @ p\<close>, is a regular file. The system
  answers \<^verbatim>\<open>ENOTDIR\<close> then, which is not \<^verbatim>\<open>os.ErrNotExist\<close>.
\<close>

fun under_file :: "filesystem \<Rightarrow> path \<Rightarrow> path \<Rightarrow> bool" where
  "under_file fs q [] = False"
| "under_file fs q (x # xs) =
     ((case fs q of Some (File bs) \<Rightarrow> True | _ \<Rightarrow> False) \<or> under_file fs (q @ [x]) xs)"

text \<open>
  \<^verbatim>\<open>os.ReadFile\<close>: a regular file on the way to the path is \<^verbatim>\<open>ENOTDIR\<close>, a missing file
  is \<^verbatim>\<open>ENOENT\<close>, a directory cannot be read, and the read of an existing file can fail
  by a fault of the environment.
\<close>

definition ReadFile :: "env \<Rightarrow> path \<Rightarrow> filesystem \<Rightarrow> error + string" where
  "ReadFile ev p fs =
     (if under_file fs [] p then Inl (PathError ''open'' (EOTHER ''ENOTDIR''))
      else
        (case fs p of
           None \<Rightarrow> Inl (PathError ''open'' ENOENT)
         | Some Dir \<Rightarrow> Inl (PathError ''read'' (EOTHER ''EISDIR''))
         | Some (File bs) \<Rightarrow>
             (case read_fault ev of
                Some k \<Rightarrow> Inl (PathError ''read'' k)
              | None \<Rightarrow> Inr bs)))"

text \<open>
  \<^verbatim>\<open>os.CreateTemp(dir, pattern)\<close>: the random string replaces the last \<^verbatim>\<open>*\<close> of the
  pattern, or is appended; a name that exists is tried again with the next random string,
  and when the tries are used up the call fails with \<^verbatim>\<open>ErrExist\<close>. The new file is empty.
\<close>

definition prefixAndSuffix :: "string \<Rightarrow> string \<times> string" where
  "prefixAndSuffix pattern =
     (if CHR ''*'' \<in> set pattern
      then (rev (tl (dropWhile (\<lambda>c. c \<noteq> CHR ''*'') (rev pattern))),
            rev (takeWhile (\<lambda>c. c \<noteq> CHR ''*'') (rev pattern)))
      else (pattern, []))"

fun temp_try :: "filesystem \<Rightarrow> path \<Rightarrow> string \<Rightarrow> string \<Rightarrow> string list \<Rightarrow> path option" where
  "temp_try fs dir pre suf [] = None"
| "temp_try fs dir pre suf (r # rs) =
     (if fs (dir @ [pre @ r @ suf]) = None then Some (dir @ [pre @ r @ suf])
      else temp_try fs dir pre suf rs)"

definition CreateTemp :: "env \<Rightarrow> path \<Rightarrow> string \<Rightarrow> filesystem \<Rightarrow> error + (path \<times> filesystem)" where
  "CreateTemp ev dir pattern fs =
     (case temp_fault ev of
        Some k \<Rightarrow> Inl (PathError ''open'' k)
      | None \<Rightarrow>
          (case fs dir of
             None \<Rightarrow>
               Inl (PathError ''open'' (if under_file fs [] dir then EOTHER ''ENOTDIR'' else ENOENT))
           | Some (File bs) \<Rightarrow> Inl (PathError ''open'' (EOTHER ''ENOTDIR''))
           | Some Dir \<Rightarrow>
               (case temp_try fs dir (fst (prefixAndSuffix pattern))
                       (snd (prefixAndSuffix pattern)) (rnd ev) of
                  None \<Rightarrow> Inl (PathError ''createtemp'' EEXIST)
                | Some name \<Rightarrow> Inr (name, fs(name \<mapsto> File [])))))"

text \<open>
  \<^verbatim>\<open>f.Write(data)\<close> on the open temporary file: a fault \<open>(n, k)\<close> leaves the first
  \<open>n\<close> bytes in the file and returns \<open>k\<close>.
\<close>

definition file_Write :: "env \<Rightarrow> path \<Rightarrow> string \<Rightarrow> filesystem \<Rightarrow> error option \<times> filesystem" where
  "file_Write ev f bs fs =
     (case write_fault ev of
        Some (n, k) \<Rightarrow> (Some (PathError ''write'' k), fs(f \<mapsto> File (take n bs)))
      | None \<Rightarrow> (None, fs(f \<mapsto> File bs)))"

definition file_Close :: "env \<Rightarrow> path \<Rightarrow> error option" where
  "file_Close ev f =
     (case close_fault ev of
        Some k \<Rightarrow> Some (PathError ''close'' k)
      | None \<Rightarrow> None)"

text \<open>
  \<^verbatim>\<open>os.Rename(old, new)\<close>: all or nothing. Go reports a directory at the new name as
  \<^verbatim>\<open>EEXIST\<close>.
\<close>

definition Rename :: "env \<Rightarrow> path \<Rightarrow> path \<Rightarrow> filesystem \<Rightarrow> error + filesystem" where
  "Rename ev old new fs =
     (case rename_fault ev of
        Some k \<Rightarrow> Inl (PathError ''rename'' k)
      | None \<Rightarrow>
          (case fs new of
             Some Dir \<Rightarrow> Inl (PathError ''rename'' EEXIST)
           | _ \<Rightarrow>
               (case fs old of
                  None \<Rightarrow> Inl (PathError ''rename'' ENOENT)
                | Some nd \<Rightarrow> Inr ((fs(old := None))(new \<mapsto> nd)))))"

section \<open>The JSON codec of the stored type\<close>

text \<open>
  \<^verbatim>\<open>JSONFileDB[DB any]\<close> is generic in the stored type, and package encoding/json is not
  part of the repository: the model takes the stored type as a type variable and the
  codec as a parameter. \<open>zero\<close> is the value that \<^verbatim>\<open>new(DB)\<close> points to,
  \<open>Unmarshal bs v\<close> is \<^verbatim>\<open>json.Unmarshal(bs, &v)\<close> returning the updated \<open>v\<close>, and
  \<open>Marshal v\<close> is \<^verbatim>\<open>json.Marshal(&v)\<close>.
\<close>

record 'a codec =
  zero :: 'a
  Unmarshal :: "string \<Rightarrow> 'a \<Rightarrow> jsonerr + 'a"
  Marshal :: "'a \<Rightarrow> jsonerr + string"

section \<open>jsonfiledb.go\<close>

text \<open>
  \<^verbatim>\<open>type JSONFileDB[DB any] struct { path string; mu sync.RWMutex; data []byte; db *DB }\<close>.
  The model is sequential, so the lock has no field. A value of the stored type is a
  mathematical value here; sharing of memory is the subject of a later section.
\<close>

record 'a JSONFileDB =
  path :: path
  data :: string
  db :: 'a

text \<open>
  The function passed to \<^verbatim>\<open>Write\<close> changes the copy it is given and returns an error or
  nil: it maps the copy to the changed copy and the error.
\<close>

type_synonym 'a mutator = "'a \<Rightarrow> 'a \<times> error option"

text \<open>\<^verbatim>\<open>func (p *JSONFileDB[DB]) Write(fn func(db *DB) error) error\<close>, statement by statement.\<close>

definition Write ::
  "'a codec \<Rightarrow> env \<Rightarrow> 'a mutator \<Rightarrow> 'a JSONFileDB \<Rightarrow> filesystem
     \<Rightarrow> error option \<times> 'a JSONFileDB \<times> filesystem" where
  "Write c ev fn p fs =
     (case Unmarshal c (data p) (zero c) of
        Inl je \<Rightarrow> (Some (Wrapf ''JSONFileDB.Write: '' (JSONError je)), p, fs)
      | Inr d \<Rightarrow>
     (case fn d of
        (m, Some e) \<Rightarrow> (Some e, p, fs)
      | (m, None) \<Rightarrow>
     (case Marshal c m of
        Inl je \<Rightarrow> (Some (Wrapf ''JSONFileDB.Write: '' (JSONError je)), p, fs)
      | Inr b \<Rightarrow>
     if b = data p then (None, p, fs)
     else
     (case CreateTemp ev (Dir_of (path p)) (Base (path p) @ ''.tmp'') fs of
        Inl e \<Rightarrow> (Some (Wrapf ''JSONFileDB.Write: temp: '' e), p, fs)
      | Inr (f, fs1) \<Rightarrow>
     (case file_Write ev f b fs1 of (werr, fs2) \<Rightarrow>
     (case (case file_Close ev f of
              Some e1 \<Rightarrow> (if werr = None then Some e1 else werr)
            | None \<Rightarrow> werr) of
        Some e \<Rightarrow> (Some (Wrapf ''JSONFileDB.Write: '' e), p, fs2)
      | None \<Rightarrow>
     (case Rename ev f (path p) fs2 of
        Inl e \<Rightarrow> (Some (Wrapf ''JSONFileDB.Write: rename: '' e), p, fs2)
      | Inr fs3 \<Rightarrow>
     (case Unmarshal c b (zero c) of
        Inl je \<Rightarrow> (Some (Wrapf ''JSONFileDB.Write: '' (JSONError je)), p, fs3)
      | Inr d2 \<Rightarrow> (None, p\<lparr>db := d2, data := b\<rparr>, fs3)))))))))"

text \<open>\<^verbatim>\<open>func New[DB any](path string) (*JSONFileDB[DB], error)\<close>.\<close>

definition New ::
  "'a codec \<Rightarrow> env \<Rightarrow> path \<Rightarrow> filesystem \<Rightarrow> (error + 'a JSONFileDB) \<times> filesystem" where
  "New c ev pth fs =
     (case Write c ev (\<lambda>d. (d, None)) \<lparr>path = pth, data = ''{}'', db = zero c\<rparr> fs of
        (Some e, p, fs') \<Rightarrow> (Inl (Wrapf ''JSONFileDB.New: '' e), fs')
      | (None, p, fs') \<Rightarrow> (Inr p, fs'))"

text \<open>\<^verbatim>\<open>func Load[DB any](path string) (*JSONFileDB[DB], error)\<close>.\<close>

definition Load :: "'a codec \<Rightarrow> env \<Rightarrow> path \<Rightarrow> filesystem \<Rightarrow> error + 'a JSONFileDB" where
  "Load c ev pth fs =
     (case ReadFile ev pth fs of
        Inl e \<Rightarrow> Inl (Wrapf ''JSONFileDB.Load: '' e)
      | Inr bs \<Rightarrow>
          (case Unmarshal c bs (zero c) of
             Inl je \<Rightarrow> Inl (Wrapf ''JSONFileDB.Load: '' (JSONError je))
           | Inr v \<Rightarrow> Inr \<lparr>path = pth, data = bs, db = v\<rparr>))"

text \<open>\<^verbatim>\<open>func (p *JSONFileDB[DB]) Read(fn func(db *DB))\<close>: what the visitor sees.\<close>

definition Read :: "('a \<Rightarrow> 'b) \<Rightarrow> 'a JSONFileDB \<Rightarrow> 'b" where
  "Read visitor p = visitor (db p)"

section \<open>Two stored types with their codecs\<close>

text \<open>
  \<^verbatim>\<open>type DB struct { Val int; hidden int }\<close>: the type of the repository's tests with one
  more field that is not exported. encoding/json writes the exported field only, as
  \<^verbatim>\<open>{"Val":N}\<close>, and reading leaves a field that the document does not name as it is in
  the target. The decoder below reads the documents \<^verbatim>\<open>{}\<close> and \<^verbatim>\<open>{"Val":N}\<close> and rejects
  every other text; encoding/json accepts more (white space, other keys), which no
  statement below depends on.
\<close>

record DB =
  Val :: "64 word"
  hidden :: "64 word"

definition dq :: char where
  "dq = CHR 0x22"

fun itoa_nat :: "nat \<Rightarrow> string" where
  "itoa_nat n =
     (if n < 10 then [''0123456789'' ! n]
      else itoa_nat (n div 10) @ [''0123456789'' ! (n mod 10)])"

definition itoa :: "int \<Rightarrow> string" where
  "itoa i = (if i < 0 then CHR ''-'' # itoa_nat (nat (- i)) else itoa_nat (nat i))"

definition is_digit :: "char \<Rightarrow> bool" where
  "is_digit ch = (ch \<in> set ''0123456789'')"

definition parse_nat :: "string \<Rightarrow> nat option" where
  "parse_nat s =
     (if s = [] \<or> \<not> list_all is_digit s \<or> (1 < length s \<and> hd s = CHR ''0'') then None
      else Some (foldl (\<lambda>a ch. 10 * a + (of_char ch - 48)) 0 s))"

definition parse_int :: "string \<Rightarrow> int option" where
  "parse_int s =
     (case s of
        [] \<Rightarrow> None
      | ch # r \<Rightarrow>
          if ch = CHR ''-'' then map_option (\<lambda>n. - int n) (parse_nat r)
          else map_option int (parse_nat s))"

definition Val_key :: string where
  "Val_key = CHR ''{'' # dq # ''Val'' @ [dq, CHR '':'']"

definition DB_Marshal :: "DB \<Rightarrow> jsonerr + string" where
  "DB_Marshal v = Inr (Val_key @ itoa (sint (Val v)) @ ''}'')"

definition DB_Unmarshal :: "string \<Rightarrow> DB \<Rightarrow> jsonerr + DB" where
  "DB_Unmarshal bs v =
     (if bs = ''{}'' then Inr v
      else if take 7 bs = Val_key \<and> 8 \<le> length bs \<and> last bs = CHR ''}'' then
        (case parse_int (butlast (drop 7 bs)) of
           None \<Rightarrow> Inl (JSONErr ''invalid character'')
         | Some n \<Rightarrow>
             if - (2 ^ 63) \<le> n \<and> n < 2 ^ 63 then Inr (v\<lparr>Val := word_of_int n\<rparr>)
             else Inl (JSONErr ''cannot unmarshal number into Go struct field DB.Val of type int''))
      else Inl (JSONErr ''invalid character''))"

definition DB_codec :: "DB codec" where
  "DB_codec = \<lparr>zero = \<lparr>Val = 0, hidden = 0\<rparr>, Unmarshal = DB_Unmarshal, Marshal = DB_Marshal\<rparr>"

text \<open>
  \<^verbatim>\<open>type Empty struct{}\<close>: every value is written as \<^verbatim>\<open>{}\<close>. The decoder reads the
  document \<^verbatim>\<open>{}\<close> and rejects every other text.
\<close>

definition Empty_codec :: "unit codec" where
  "Empty_codec =
     \<lparr>zero = (),
      Unmarshal = (\<lambda>bs v. if bs = ''{}'' then Inr v else Inl (JSONErr ''invalid character'')),
      Marshal = (\<lambda>v. Inr ''{}'')\<rparr>"

text \<open>
  A healthy environment, and a file system with the directory \<^verbatim>\<open>/tmp\<close> and nothing in it.
\<close>

definition ok_env :: env where
  "ok_env = \<lparr>rnd = [''123''], temp_fault = None, write_fault = None, close_fault = None,
             rename_fault = None, read_fault = None\<rparr>"

definition fs_empty :: filesystem where
  "fs_empty = [[] \<mapsto> Dir, [''tmp''] \<mapsto> Dir]"

definition db_json :: path where
  "db_json = [''tmp'', ''db.json'']"

text \<open>
  A store that holds \<^verbatim>\<open>Val = 1\<close> with its file, as \<^verbatim>\<open>New\<close> and one \<^verbatim>\<open>Write\<close> leave them.
\<close>

definition store_val1 :: "DB JSONFileDB" where
  "store_val1 = \<lparr>path = db_json, data = Val_key @ ''1}'', db = \<lparr>Val = 1, hidden = 0\<rparr>\<rparr>"

definition fs_val1 :: filesystem where
  "fs_val1 = fs_empty(db_json \<mapsto> File (Val_key @ ''1}''))"

section \<open>The stores a program can hold\<close>

text \<open>
  A program gets a store from \<^verbatim>\<open>New\<close> or \<^verbatim>\<open>Load\<close> and changes it by \<^verbatim>\<open>Write\<close> only;
  \<^verbatim>\<open>Read\<close> changes nothing. The file system at each call is arbitrary, since other
  programs may change it between calls.
\<close>

inductive reachable :: "'a codec \<Rightarrow> 'a JSONFileDB \<Rightarrow> bool" for c :: "'a codec" where
  reach_New: "New c ev pth fs = (Inr p, fs') \<Longrightarrow> reachable c p"
| reach_Load: "Load c ev pth fs = Inr p \<Longrightarrow> reachable c p"
| reach_Write: "reachable c p \<Longrightarrow> Write c ev fn p fs = (r, p', fs') \<Longrightarrow> reachable c p'"

text \<open>
  The stored value is what the stored bytes decode to, or the store is as \<^verbatim>\<open>New\<close> set it
  up (the zero value with the bytes \<^verbatim>\<open>{}\<close>) and its first write found nothing to write.
\<close>

definition value_of_bytes :: "'a codec \<Rightarrow> 'a JSONFileDB \<Rightarrow> bool" where
  "value_of_bytes c p =
     (Unmarshal c (data p) (zero c) = Inr (db p) \<or>
      data p = ''{}'' \<and> db p = zero c \<and>
        (case Unmarshal c ''{}'' (zero c) of
           Inl je \<Rightarrow> False
         | Inr d \<Rightarrow> Marshal c d = Inr ''{}''))"

section \<open>Memory: stored values that hold pointers\<close>

text \<open>
  A Go value of the stored type can hold slices, maps and pointers, which refer to memory
  that the caller of \<^verbatim>\<open>Write\<close> may hold too. To speak of that, memory is made explicit:
  a heap is a list of cells, an address is an index into it, and allocation appends a
  cell. A value of the stored type is then what the struct itself holds, addresses
  included. The codec and the function given to \<^verbatim>\<open>Write\<close> read and change the heap;
  \<open>refs v\<close> are the addresses that \<open>v\<close> holds, and \<open>view v h\<close> is the Go value that
  \<open>v\<close> stands for in the heap \<open>h\<close>, as \<^verbatim>\<open>reflect.DeepEqual\<close> compares it.
\<close>

record ('a, 'cell, 'v) hcodec =
  hzero :: 'a
  hUnmarshal :: "string \<Rightarrow> 'a \<Rightarrow> 'cell list \<Rightarrow> jsonerr + ('a \<times> 'cell list)"
  hMarshal :: "'a \<Rightarrow> 'cell list \<Rightarrow> jsonerr + string"
  refs :: "'a \<Rightarrow> nat set"
  view :: "'a \<Rightarrow> 'cell list \<Rightarrow> 'v"

type_synonym ('a, 'cell) hmutator = "'a \<Rightarrow> 'cell list \<Rightarrow> ('a \<times> 'cell list) \<times> error option"

definition cell :: "'cell list \<Rightarrow> nat \<Rightarrow> 'cell option" where
  "cell h a = (if a < length h then Some (h ! a) else None)"

text \<open>
  \<^verbatim>\<open>Write\<close> again, statement by statement, with the heap passed along. A failed
  \<^verbatim>\<open>json.Unmarshal\<close> leaves only garbage behind, so the heap is returned as it was.
\<close>

definition Write_h ::
  "('a, 'cell, 'v) hcodec \<Rightarrow> env \<Rightarrow> ('a, 'cell) hmutator \<Rightarrow> 'a JSONFileDB \<Rightarrow> filesystem
     \<Rightarrow> 'cell list \<Rightarrow> error option \<times> 'a JSONFileDB \<times> filesystem \<times> 'cell list" where
  "Write_h hc ev fn p fs h =
     (case hUnmarshal hc (data p) (hzero hc) h of
        Inl je \<Rightarrow> (Some (Wrapf ''JSONFileDB.Write: '' (JSONError je)), p, fs, h)
      | Inr (d, h1) \<Rightarrow>
     (case fn d h1 of
        ((m, h2), Some e) \<Rightarrow> (Some e, p, fs, h2)
      | ((m, h2), None) \<Rightarrow>
     (case hMarshal hc m h2 of
        Inl je \<Rightarrow> (Some (Wrapf ''JSONFileDB.Write: '' (JSONError je)), p, fs, h2)
      | Inr b \<Rightarrow>
     if b = data p then (None, p, fs, h2)
     else
     (case CreateTemp ev (Dir_of (path p)) (Base (path p) @ ''.tmp'') fs of
        Inl e \<Rightarrow> (Some (Wrapf ''JSONFileDB.Write: temp: '' e), p, fs, h2)
      | Inr (f, fs1) \<Rightarrow>
     (case file_Write ev f b fs1 of (werr, fs2) \<Rightarrow>
     (case (case file_Close ev f of
              Some e1 \<Rightarrow> (if werr = None then Some e1 else werr)
            | None \<Rightarrow> werr) of
        Some e \<Rightarrow> (Some (Wrapf ''JSONFileDB.Write: '' e), p, fs2, h2)
      | None \<Rightarrow>
     (case Rename ev f (path p) fs2 of
        Inl e \<Rightarrow> (Some (Wrapf ''JSONFileDB.Write: rename: '' e), p, fs2, h2)
      | Inr fs3 \<Rightarrow>
     (case hUnmarshal hc b (hzero hc) h2 of
        Inl je \<Rightarrow> (Some (Wrapf ''JSONFileDB.Write: '' (JSONError je)), p, fs3, h2)
      | Inr (d2, h3) \<Rightarrow> (None, p\<lparr>db := d2, data := b\<rparr>, fs3, h3)))))))))"

text \<open>\<^verbatim>\<open>Read\<close>: the visitor sees the stored value in the heap of the moment.\<close>

definition Read_h :: "('a \<Rightarrow> 'cell list \<Rightarrow> 'b) \<Rightarrow> 'a JSONFileDB \<Rightarrow> 'cell list \<Rightarrow> 'b" where
  "Read_h visitor p h = visitor (db p) h"

text \<open>
  A codec of a stored type without pointers works on any heap and leaves it alone; on
  it, \<open>Write_h\<close> is \<open>Write\<close> (lemma \<open>Write_h_on_heap\<close> below).
\<close>

definition on_heap :: "'a codec \<Rightarrow> ('a, 'cell, 'a) hcodec" where
  "on_heap c =
     \<lparr>hzero = zero c,
      hUnmarshal = (\<lambda>bs v h. case Unmarshal c bs v of Inl je \<Rightarrow> Inl je | Inr d \<Rightarrow> Inr (d, h)),
      hMarshal = (\<lambda>v h. Marshal c v),
      refs = (\<lambda>v. {}),
      view = (\<lambda>v h. v)\<rparr>"

text \<open>
  Two facts about encoding/json and the stored type that the repository relies on.
  Decoding into a fresh \<^verbatim>\<open>new(DB)\<close> puts every slice, map and pointer of the result into
  memory that it allocates; and the Go value that a stored value stands for depends on
  the heap only at the addresses that the value holds.
\<close>

definition fresh_decoder :: "('a, 'cell, 'v) hcodec \<Rightarrow> bool" where
  "fresh_decoder hc =
     (\<forall>bs h v h'. hUnmarshal hc bs (hzero hc) h = Inr (v, h') \<longrightarrow>
        refs hc v \<subseteq> {length h ..< length h'})"

definition view_of_refs :: "('a, 'cell, 'v) hcodec \<Rightarrow> bool" where
  "view_of_refs hc =
     (\<forall>v h k. (\<forall>a \<in> refs hc v. cell h a = cell k a) \<longrightarrow> view hc v h = view hc v k)"

text \<open>
  \<^verbatim>\<open>type DB struct{ Vals []int }\<close> of \<^verbatim>\<open>TestNoAlias\<close>. A slice is nil, or the address of its
  backing array and its length; a cell is a backing array. The decoder reads the documents
  \<^verbatim>\<open>{}\<close>, \<^verbatim>\<open>{"Vals":null}\<close> and \<^verbatim>\<open>{"Vals":[1,2,3]}\<close>. As encoding/json does, it fills the
  backing array of the target's slice when that is large enough, and allocates one
  otherwise; the slice of a fresh \<^verbatim>\<open>new(DB)\<close> is nil.
\<close>

datatype slice = NilSlice | Slice nat nat

record DBV =
  Vals :: slice

definition Vals_key :: string where
  "Vals_key = CHR ''{'' # dq # ''Vals'' @ [dq, CHR '':'']"

fun join_commas :: "string list \<Rightarrow> string" where
  "join_commas [] = []"
| "join_commas [x] = x"
| "join_commas (x # y # ys) = x @ CHR '','' # join_commas (y # ys)"

fun split_commas :: "string \<Rightarrow> string list" where
  "split_commas [] = [[]]"
| "split_commas (x # xs) =
     (if x = CHR '','' then [] # split_commas xs
      else (case split_commas xs of
              [] \<Rightarrow> [[x]]
            | w # ws \<Rightarrow> (x # w) # ws))"

definition parse_word :: "string \<Rightarrow> 64 word option" where
  "parse_word s =
     (case parse_int s of
        None \<Rightarrow> None
      | Some n \<Rightarrow> if - (2 ^ 63) \<le> n \<and> n < 2 ^ 63 then Some (word_of_int n) else None)"

fun parse_all :: "string list \<Rightarrow> 64 word list option" where
  "parse_all [] = Some []"
| "parse_all (s # ss) =
     (case parse_word s of
        None \<Rightarrow> None
      | Some w \<Rightarrow> (case parse_all ss of None \<Rightarrow> None | Some ws \<Rightarrow> Some (w # ws)))"

definition parse_array :: "string \<Rightarrow> 64 word list option" where
  "parse_array s = (if s = [] then Some [] else parse_all (split_commas s))"

definition DBV_Marshal :: "DBV \<Rightarrow> 64 word list list \<Rightarrow> jsonerr + string" where
  "DBV_Marshal v h =
     (case Vals v of
        NilSlice \<Rightarrow> Inr (Vals_key @ ''null}'')
      | Slice a n \<Rightarrow>
          (case cell h a of
             None \<Rightarrow> Inl (JSONErr ''slice without backing array'')
           | Some xs \<Rightarrow>
               Inr (Vals_key @ ''['' @ join_commas (map (\<lambda>w. itoa (sint w)) (take n xs)) @ '']}'')))"

definition DBV_Unmarshal ::
  "string \<Rightarrow> DBV \<Rightarrow> 64 word list list \<Rightarrow> jsonerr + (DBV \<times> 64 word list list)" where
  "DBV_Unmarshal bs v h =
     (if bs = ''{}'' then Inr (v, h)
      else if bs = Vals_key @ ''null}'' then Inr (v\<lparr>Vals := NilSlice\<rparr>, h)
      else if 11 \<le> length bs \<and> take 9 bs = Vals_key @ ''['' \<and> drop (length bs - 2) bs = '']}'' then
        (case parse_array (take (length bs - 11) (drop 9 bs)) of
           None \<Rightarrow> Inl (JSONErr ''invalid character'')
         | Some xs \<Rightarrow>
             (case (case Vals v of
                      NilSlice \<Rightarrow> None
                    | Slice a n \<Rightarrow>
                        (case cell h a of
                           None \<Rightarrow> None
                         | Some old \<Rightarrow> if length xs \<le> length old then Some (a, old) else None)) of
                Some (a, old) \<Rightarrow>
                  Inr (v\<lparr>Vals := Slice a (length xs)\<rparr>, h[a := xs @ drop (length xs) old])
              | None \<Rightarrow> Inr (v\<lparr>Vals := Slice (length h) (length xs)\<rparr>, h @ [xs])))
      else Inl (JSONErr ''invalid character''))"

definition DBV_refs :: "DBV \<Rightarrow> nat set" where
  "DBV_refs v = (case Vals v of NilSlice \<Rightarrow> {} | Slice a n \<Rightarrow> {a})"

definition DBV_view :: "DBV \<Rightarrow> 64 word list list \<Rightarrow> 64 word list option" where
  "DBV_view v h =
     (case Vals v of
        NilSlice \<Rightarrow> None
      | Slice a n \<Rightarrow> (case cell h a of None \<Rightarrow> None | Some xs \<Rightarrow> Some (take n xs)))"

definition DBV_codec :: "(DBV, 64 word list, 64 word list option) hcodec" where
  "DBV_codec =
     \<lparr>hzero = \<lparr>Vals = NilSlice\<rparr>, hUnmarshal = DBV_Unmarshal, hMarshal = DBV_Marshal,
      refs = DBV_refs, view = DBV_view\<rparr>"

definition store_vals :: "DBV JSONFileDB" where
  "store_vals = \<lparr>path = db_json, data = Vals_key @ ''null}'', db = \<lparr>Vals = NilSlice\<rparr>\<rparr>"

definition fs_vals :: filesystem where
  "fs_vals = fs_empty(db_json \<mapsto> File (Vals_key @ ''null}''))"

section \<open>Auxiliary facts\<close>

text \<open>The definitions that a run on concrete inputs unfolds.\<close>

lemmas run_defs = Write_def New_def Load_def Read_def ReadFile_def CreateTemp_def prefixAndSuffix_def
  Dir_of_def Base_def file_Write_def file_Close_def Rename_def
  DB_codec_def DB_Unmarshal_def DB_Marshal_def Val_key_def dq_def itoa_def parse_int_def
  parse_nat_def is_digit_def Empty_codec_def ok_env_def fs_empty_def db_json_def store_val1_def fs_val1_def


subsection \<open>Errors and temporary names\<close>

lemma errors_Is_refl: "errors_Is e e"
  by (cases e) simp_all

lemma prefixAndSuffix_length:
  "length pattern \<le> length (fst (prefixAndSuffix pattern)) + length (snd (prefixAndSuffix pattern)) + 1"
proof (cases "CHR ''*'' \<in> set pattern")
  case False
  then show ?thesis by (simp add: prefixAndSuffix_def)
next
  case True
  let ?P = "\<lambda>c. c \<noteq> CHR ''*''"
  let ?r = "rev pattern"
  have ne: "dropWhile ?P ?r \<noteq> []"
    using True by (simp add: dropWhile_eq_Nil_conv)
  have "length (takeWhile ?P ?r) + length (dropWhile ?P ?r) = length ?r"
    by (metis length_append takeWhile_dropWhile_id)
  moreover have "length (tl (dropWhile ?P ?r)) + 1 = length (dropWhile ?P ?r)"
    using ne by (cases "dropWhile ?P ?r") simp_all
  ultimately show ?thesis
    using True by (simp add: prefixAndSuffix_def)
qed

lemma temp_try_Some:
  "temp_try fs dir pre suf rs = Some name \<Longrightarrow>
     fs name = None \<and> (\<exists>r. name = dir @ [pre @ r @ suf])"
  by (induction rs) (auto split: if_splits)

lemma temp_name_differs:
  assumes "f = Dir_of pth @ [fst (prefixAndSuffix (Base pth @ ''.tmp'')) @ r @ snd (prefixAndSuffix (Base pth @ ''.tmp''))]"
  shows "f \<noteq> pth"
proof
  assume eq: "f = pth"
  let ?n = "fst (prefixAndSuffix (Base pth @ ''.tmp'')) @ r @ snd (prefixAndSuffix (Base pth @ ''.tmp''))"
  from eq assms have pth: "pth = butlast pth @ [?n]" by (simp add: Dir_of_def)
  then have ne: "pth \<noteq> []" by auto
  have "last pth = last (butlast pth @ [?n])" using pth by simp
  then have "last pth = ?n" by simp
  moreover have "length (Base pth @ ''.tmp'') \<le> length ?n + 1"
    using prefixAndSuffix_length [of "Base pth @ ''.tmp''"] by simp
  ultimately have "length (last pth @ ''.tmp'') \<le> length (last pth) + 1"
    using ne by (simp add: Base_def)
  then show False by simp
qed

lemma CreateTemp_Inr:
  assumes "CreateTemp ev (Dir_of pth) (Base pth @ ''.tmp'') fs = Inr (f, fs1)"
  shows "f \<noteq> pth \<and> fs f = None \<and> fs1 = fs(f \<mapsto> File [])"
proof -
  from assms obtain name where t: "temp_try fs (Dir_of pth) (fst (prefixAndSuffix (Base pth @ ''.tmp'')))
      (snd (prefixAndSuffix (Base pth @ ''.tmp''))) (rnd ev) = Some name"
    and f: "f = name" and fs1: "fs1 = fs(name \<mapsto> File [])"
    by (auto simp: CreateTemp_def split: option.splits node.splits)
  from temp_try_Some [OF t] temp_name_differs show ?thesis
    using f fs1 by blast
qed


lemma temp_file_keeps_target:
  assumes "CreateTemp ev (Dir_of pth) (Base pth @ ''.tmp'') fs = Inr (f, fs1)"
    and "file_Write ev f b fs1 = (werr, fs2)"
  shows "fs2 pth = fs pth"
  using CreateTemp_Inr [OF assms(1)] assms(2)
  by (auto simp: file_Write_def split: option.splits prod.splits)

subsection \<open>What a call of Write can return\<close>

lemma Write_success_cases:
  assumes "Write c ev fn p fs = (None, p', fs')"
  shows "\<exists>d m b. Unmarshal c (data p) (zero c) = Inr d \<and> fn d = (m, None) \<and> Marshal c m = Inr b \<and>
           (if b = data p then p' = p \<and> fs' = fs
            else Unmarshal c b (zero c) = Inr (db p') \<and> data p' = b \<and> path p' = path p
                 \<and> fs' (path p) = Some (File b))"
proof -
  from assms obtain d where d: "Unmarshal c (data p) (zero c) = Inr d"
    by (auto simp: Write_def split: sum.splits)
  from assms d obtain m where m: "fn d = (m, None)"
    by (cases "fn d") (auto simp: Write_def split: option.splits)
  from assms d m obtain b where b: "Marshal c m = Inr b"
    by (auto simp: Write_def split: sum.splits)
  show ?thesis
  proof (cases "b = data p")
    case True
    with assms d m b show ?thesis by (simp add: Write_def)
  next
    case False
    from assms d m b False obtain f fs1 where ct:
      "CreateTemp ev (Dir_of (path p)) (Base (path p) @ ''.tmp'') fs = Inr (f, fs1)"
      by (auto simp: Write_def split: sum.splits)
    from CreateTemp_Inr [OF ct] have fne: "f \<noteq> path p" by simp
    from assms d m b False ct have wf: "write_fault ev = None"
      by (auto simp: Write_def file_Write_def file_Close_def split: option.splits sum.splits prod.splits)
    then have fw: "file_Write ev f b fs1 = (None, fs1(f \<mapsto> File b))"
      by (simp add: file_Write_def)
    from assms d m b False ct fw have cl: "file_Close ev f = None"
      by (auto simp: Write_def split: option.splits sum.splits)
    from assms d m b False ct fw cl obtain fs3 where
      rn: "Rename ev f (path p) (fs1(f \<mapsto> File b)) = Inr fs3"
      by (auto simp: Write_def split: sum.splits)
    from assms d m b False ct fw cl rn obtain d2 where
      d2: "Unmarshal c b (zero c) = Inr d2" and p': "p' = p\<lparr>db := d2, data := b\<rparr>" and fs': "fs' = fs3"
      by (auto simp: Write_def split: sum.splits)
    from rn have "fs3 (path p) = Some (File b)"
      by (auto simp: Rename_def split: option.splits node.splits if_splits)
    with d m b False d2 p' fs' show ?thesis by auto
  qed
qed

lemma Write_failure_store:
  assumes "Write c ev fn p fs = (Some e, p', fs')"
  shows "p' = p"
  using assms
  by (auto simp: Write_def split: sum.splits prod.splits option.splits if_splits)

lemma Write_store_cases:
  assumes "Write c ev fn p fs = (r, p', fs')"
  shows "p' = p \<or> Unmarshal c (data p') (zero c) = Inr (db p')"
proof (cases r)
  case None
  with assms Write_success_cases [of c ev fn p fs p' fs'] show ?thesis
    by (auto split: if_splits)
next
  case (Some e)
  with assms Write_failure_store show ?thesis by blast
qed

lemma New_cases:
  assumes "New c ev pth fs = (Inr p, fs')"
  shows "\<exists>d b. Unmarshal c ''{}'' (zero c) = Inr d \<and> Marshal c d = Inr b \<and>
           (if b = ''{}'' then p = \<lparr>path = pth, data = ''{}'', db = zero c\<rparr> \<and> fs' = fs
            else Unmarshal c b (zero c) = Inr (db p) \<and> data p = b \<and> path p = pth
                 \<and> fs' pth = Some (File b))"
proof -
  from assms have w: "Write c ev (\<lambda>d. (d, None)) \<lparr>path = pth, data = ''{}'', db = zero c\<rparr> fs = (None, p, fs')"
    by (auto simp: New_def split: prod.splits option.splits)
  from Write_success_cases [OF w] show ?thesis
    by (simp cong: if_cong)
qed

lemma New_value_of_bytes:
  assumes "New c ev pth fs = (Inr p, fs')"
  shows "value_of_bytes c p"
  using New_cases [OF assms] by (auto simp: value_of_bytes_def split: if_splits)

lemma Load_value_of_bytes:
  assumes "Load c ev pth fs = Inr p"
  shows "value_of_bytes c p"
  using assms by (auto simp: Load_def value_of_bytes_def split: sum.splits)

lemma value_of_bytes_decodes:
  assumes "value_of_bytes c p"
  shows "\<exists>d. Unmarshal c (data p) (zero c) = Inr d"
  using assms by (auto simp: value_of_bytes_def split: sum.splits)

text \<open>The bytes of every store that a program can hold decode.\<close>

lemma reachable_decodes:
  assumes "reachable c p"
  shows "\<exists>d. Unmarshal c (data p) (zero c) = Inr d"
  using assms
proof (induction rule: reachable.induct)
  case (reach_New ev pth fs p fs')
  then show ?case by (blast intro: value_of_bytes_decodes New_value_of_bytes)
next
  case (reach_Load ev pth fs p)
  then show ?case by (blast intro: value_of_bytes_decodes Load_value_of_bytes)
next
  case (reach_Write p ev fn fs r p' fs')
  from Write_store_cases [OF reach_Write.hyps(2)] reach_Write.IH show ?case
    by auto
qed

subsection \<open>Write on an explicit heap\<close>

lemmas runh = Write_h_def Read_h_def DBV_codec_def DBV_Unmarshal_def DBV_Marshal_def DBV_refs_def DBV_view_def
  Vals_key_def parse_array_def parse_word_def cell_def store_vals_def fs_vals_def

lemma Write_h_on_heap:
  "Write_h (on_heap c) ev (\<lambda>d h. ((fst (fn d), h), snd (fn d))) p fs h
     = (case Write c ev fn p fs of (r, p', fs') \<Rightarrow> (r, p', fs', h))"
proof (cases "Unmarshal c (data p) (zero c)")
  case (Inl je)
  then show ?thesis by (simp add: Write_h_def Write_def on_heap_def)
next
  case d: (Inr d)
  obtain m r where f: "fn d = (m, r)" by (cases "fn d")
  show ?thesis
  proof (cases r)
    case (Some e)
    with d f show ?thesis by (simp add: Write_h_def Write_def on_heap_def)
  next
    case None
    show ?thesis
    proof (cases "Marshal c m")
      case (Inl je)
      with d f None show ?thesis by (simp add: Write_h_def Write_def on_heap_def)
    next
      case b: (Inr b)
      show ?thesis
      proof (cases "b = data p")
        case True
        with d f None b show ?thesis by (simp add: Write_h_def Write_def on_heap_def)
      next
        case False
        with d f None b show ?thesis
          by (simp add: Write_h_def Write_def on_heap_def
                split: sum.split prod.split option.split)
      qed
    qed
  qed
qed

lemma Write_h_success_cases:
  assumes d: "hUnmarshal hc (data p) (hzero hc) h = Inr (d, h1)"
    and m: "fn d h1 = ((m, h2), None)"
    and w: "Write_h hc ev fn p fs h = (None, p', fs', h')"
  shows "\<exists>b. hMarshal hc m h2 = Inr b \<and>
           (if b = data p then p' = p \<and> fs' = fs \<and> h' = h2
            else data p' = b \<and> path p' = path p
                 \<and> hUnmarshal hc b (hzero hc) h2 = Inr (db p', h'))"
proof -
  from w d m obtain b where b: "hMarshal hc m h2 = Inr b"
    by (auto simp: Write_h_def split: sum.splits)
  show ?thesis
  proof (cases "b = data p")
    case True
    with w d m b show ?thesis by (simp add: Write_h_def)
  next
    case False
    with w d m b have "data p' = b \<and> path p' = path p
        \<and> hUnmarshal hc b (hzero hc) h2 = Inr (db p', h')"
      by (auto simp: Write_h_def split: sum.splits prod.splits option.splits)
    with b False show ?thesis by simp
  qed
qed

lemma DBV_fresh: "fresh_decoder DBV_codec"
  by (auto simp: fresh_decoder_def DBV_codec_def DBV_Unmarshal_def DBV_refs_def
      split: if_splits option.splits)

lemma DBV_view_of_refs: "view_of_refs DBV_codec"
  by (auto simp: view_of_refs_def DBV_codec_def DBV_view_def DBV_refs_def split: slice.splits)

section \<open>Write: failure of the mutator\<close>

text \<open>
  Claim C1. When the function given to \<^verbatim>\<open>Write\<close> returns an error, \<^verbatim>\<open>Write\<close> returns
  that very error, not wrapped, so that \<^verbatim>\<open>errors.Is\<close> finds it; the file system is as it
  was, the store (value and bytes) is as it was, and \<^verbatim>\<open>Read\<close> afterwards sees what it saw
  before. The function is called on the decoded copy \<open>d\<close> of the stored bytes, and the
  bytes of every store that a program can hold decode (lemma \<open>reachable_decodes\<close>).
\<close>

theorem Write_mutator_error:
  assumes "Unmarshal c (data p) (zero c) = Inr d" and "fn d = (m, Some e)"
  shows "Write c ev fn p fs = (Some e, p, fs) \<and> errors_Is e e
         \<and> Read visitor (fst (snd (Write c ev fn p fs))) = Read visitor p"
  using assms by (simp add: Write_def errors_Is_refl)

theorem Write_mutator_error_witness:
  "Write DB_codec ok_env (\<lambda>d. (d\<lparr>Val := 2\<rparr>, Some (Custom ''rollback''))) store_val1 fs_val1
     = (Some (Custom ''rollback''), store_val1, fs_val1)
   \<and> errors_Is (Custom ''rollback'') (Custom ''rollback'')
   \<and> Read Val (fst (snd (Write DB_codec ok_env
         (\<lambda>d. (d\<lparr>Val := 2\<rparr>, Some (Custom ''rollback''))) store_val1 fs_val1))) = 1"
proof -
  have h1: "Unmarshal DB_codec (data store_val1) (zero DB_codec) = Inr \<lparr>Val = 1, hidden = 0\<rparr>"
    by (simp add: run_defs)
  have h2: "(\<lambda>d. (d\<lparr>Val := 2\<rparr>, Some (Custom ''rollback''))) \<lparr>Val = 1, hidden = 0\<rparr>
      = (\<lparr>Val = 2, hidden = 0\<rparr>, Some (Custom ''rollback''))"
    by simp
  have h3: "Read Val store_val1 = 1"
    by (simp add: Read_def store_val1_def)
  from Write_mutator_error [where fn = "\<lambda>d. (d\<lparr>Val := 2\<rparr>, Some (Custom ''rollback''))",
      OF h1 h2, of ok_env fs_val1 Val] h3
  show ?thesis by simp
qed

section \<open>Write: failure of the durable write\<close>

text \<open>
  Claim C2, as the code has it. Let \<^verbatim>\<open>Write\<close> have new bytes \<open>b\<close> to store. Whichever
  step of the durable write fails, \<^verbatim>\<open>Write\<close> returns that step's error, wrapped, the store
  is as it was, and so is the file at the store's path. The wrapping is
  \<^verbatim>\<open>JSONFileDB.Write: temp:\<close> for the creation of the temporary file,
  \<^verbatim>\<open>JSONFileDB.Write: rename:\<close> for the rename, and the plain \<^verbatim>\<open>JSONFileDB.Write:\<close> for the
  write and for the close alike.
\<close>

theorem Write_durable_failure:
  assumes u: "Unmarshal c (data p) (zero c) = Inr d" and f: "fn d = (m, None)"
    and mb: "Marshal c m = Inr b" and ne: "b \<noteq> data p"
  shows
    "(\<forall>t. CreateTemp ev (Dir_of (path p)) (Base (path p) @ ''.tmp'') fs = Inl t \<longrightarrow>
        Write c ev fn p fs = (Some (Wrapf ''JSONFileDB.Write: temp: '' t), p, fs))
     \<and> (\<forall>tmp fs1 fs2 w.
          CreateTemp ev (Dir_of (path p)) (Base (path p) @ ''.tmp'') fs = Inr (tmp, fs1)
          \<and> file_Write ev tmp b fs1 = (Some w, fs2) \<longrightarrow>
        Write c ev fn p fs = (Some (Wrapf ''JSONFileDB.Write: '' w), p, fs2)
        \<and> fs2 (path p) = fs (path p))
     \<and> (\<forall>tmp fs1 fs2 cl.
          CreateTemp ev (Dir_of (path p)) (Base (path p) @ ''.tmp'') fs = Inr (tmp, fs1)
          \<and> file_Write ev tmp b fs1 = (None, fs2) \<and> file_Close ev tmp = Some cl \<longrightarrow>
        Write c ev fn p fs = (Some (Wrapf ''JSONFileDB.Write: '' cl), p, fs2)
        \<and> fs2 (path p) = fs (path p))
     \<and> (\<forall>tmp fs1 fs2 r.
          CreateTemp ev (Dir_of (path p)) (Base (path p) @ ''.tmp'') fs = Inr (tmp, fs1)
          \<and> file_Write ev tmp b fs1 = (None, fs2) \<and> file_Close ev tmp = None
          \<and> Rename ev tmp (path p) fs2 = Inl r \<longrightarrow>
        Write c ev fn p fs = (Some (Wrapf ''JSONFileDB.Write: rename: '' r), p, fs2)
        \<and> fs2 (path p) = fs (path p))"
proof (intro conjI allI impI)
  fix t
  assume "CreateTemp ev (Dir_of (path p)) (Base (path p) @ ''.tmp'') fs = Inl t"
  with u f mb ne
  show "Write c ev fn p fs = (Some (Wrapf ''JSONFileDB.Write: temp: '' t), p, fs)"
    by (simp add: Write_def)
next
  fix tmp fs1 fs2 w
  assume a: "CreateTemp ev (Dir_of (path p)) (Base (path p) @ ''.tmp'') fs = Inr (tmp, fs1)
      \<and> file_Write ev tmp b fs1 = (Some w, fs2)"
  with u f mb ne
  show "Write c ev fn p fs = (Some (Wrapf ''JSONFileDB.Write: '' w), p, fs2)"
    by (simp add: Write_def split: option.split)
  from a temp_file_keeps_target show "fs2 (path p) = fs (path p)"
    by blast
next
  fix tmp fs1 fs2 cl
  assume a: "CreateTemp ev (Dir_of (path p)) (Base (path p) @ ''.tmp'') fs = Inr (tmp, fs1)
      \<and> file_Write ev tmp b fs1 = (None, fs2) \<and> file_Close ev tmp = Some cl"
  with u f mb ne
  show "Write c ev fn p fs = (Some (Wrapf ''JSONFileDB.Write: '' cl), p, fs2)"
    by (simp add: Write_def)
  from a temp_file_keeps_target show "fs2 (path p) = fs (path p)"
    by blast
next
  fix tmp fs1 fs2 r
  assume a: "CreateTemp ev (Dir_of (path p)) (Base (path p) @ ''.tmp'') fs = Inr (tmp, fs1)
      \<and> file_Write ev tmp b fs1 = (None, fs2) \<and> file_Close ev tmp = None
      \<and> Rename ev tmp (path p) fs2 = Inl r"
  with u f mb ne
  show "Write c ev fn p fs = (Some (Wrapf ''JSONFileDB.Write: rename: '' r), p, fs2)"
    by (simp add: Write_def)
  from a temp_file_keeps_target show "fs2 (path p) = fs (path p)"
    by blast
qed

text \<open>
  The directory is not writable, as in \<^verbatim>\<open>TestFileError\<close>, and the temporary file cannot be
  created; and the rename fails, which leaves the temporary file behind and the file at
  the path as it was.
\<close>

theorem Write_durable_failure_witness:
  "Write DB_codec (ok_env\<lparr>temp_fault := Some EACCES\<rparr>) (\<lambda>d. (d\<lparr>Val := 2\<rparr>, None)) store_val1 fs_val1
     = (Some (Wrapf ''JSONFileDB.Write: temp: '' (PathError ''open'' EACCES)), store_val1, fs_val1)
   \<and> errors_Is (Wrapf ''JSONFileDB.Write: temp: '' (PathError ''open'' EACCES)) os_ErrPermission
   \<and> Write DB_codec (ok_env\<lparr>rename_fault := Some EACCES\<rparr>) (\<lambda>d. (d\<lparr>Val := 2\<rparr>, None))
        store_val1 fs_val1
     = (Some (Wrapf ''JSONFileDB.Write: rename: '' (PathError ''rename'' EACCES)), store_val1,
        fs_val1([''tmp'', ''db.json.tmp123''] \<mapsto> File (Val_key @ ''2}'')))
   \<and> (fs_val1([''tmp'', ''db.json.tmp123''] \<mapsto> File (Val_key @ ''2}''))) (path store_val1)
     = fs_val1 (path store_val1)"
proof -
  let ?fn = "\<lambda>d. (d\<lparr>Val := 2\<rparr>, None :: error option)"
  let ?tmp = "[''tmp'', ''db.json.tmp123'']"
  have h1: "Unmarshal DB_codec (data store_val1) (zero DB_codec) = Inr \<lparr>Val = 1, hidden = 0\<rparr>"
    by (simp add: run_defs)
  have h2: "?fn \<lparr>Val = 1, hidden = 0\<rparr> = (\<lparr>Val = 2, hidden = 0\<rparr>, None)"
    by simp
  have h3: "Marshal DB_codec \<lparr>Val = 2, hidden = 0\<rparr> = Inr (Val_key @ ''2}'')"
    by (simp add: run_defs)
  have h4: "Val_key @ ''2}'' \<noteq> data store_val1"
    by (simp add: run_defs)
  have t: "CreateTemp (ok_env\<lparr>temp_fault := Some EACCES\<rparr>) (Dir_of (path store_val1))
        (Base (path store_val1) @ ''.tmp'') fs_val1 = Inl (PathError ''open'' EACCES)"
    by (simp add: run_defs)
  have r: "CreateTemp (ok_env\<lparr>rename_fault := Some EACCES\<rparr>) (Dir_of (path store_val1))
        (Base (path store_val1) @ ''.tmp'') fs_val1 = Inr (?tmp, fs_val1(?tmp \<mapsto> File []))
      \<and> file_Write (ok_env\<lparr>rename_fault := Some EACCES\<rparr>) ?tmp (Val_key @ ''2}'')
            (fs_val1(?tmp \<mapsto> File []))
          = (None, fs_val1(?tmp \<mapsto> File (Val_key @ ''2}'')))
      \<and> file_Close (ok_env\<lparr>rename_fault := Some EACCES\<rparr>) ?tmp = None
      \<and> Rename (ok_env\<lparr>rename_fault := Some EACCES\<rparr>) ?tmp (path store_val1)
            (fs_val1(?tmp \<mapsto> File (Val_key @ ''2}''))) = Inl (PathError ''rename'' EACCES)"
    by (simp add: run_defs)
  from Write_durable_failure [where fn = ?fn and ev = "ok_env\<lparr>temp_fault := Some EACCES\<rparr>"
      and fs = fs_val1, OF h1 h2 h3 h4] t
  have 1: "Write DB_codec (ok_env\<lparr>temp_fault := Some EACCES\<rparr>) ?fn store_val1 fs_val1
      = (Some (Wrapf ''JSONFileDB.Write: temp: '' (PathError ''open'' EACCES)), store_val1, fs_val1)"
    by blast
  from Write_durable_failure [where fn = ?fn and ev = "ok_env\<lparr>rename_fault := Some EACCES\<rparr>"
      and fs = fs_val1, OF h1 h2 h3 h4] r
  have 2: "Write DB_codec (ok_env\<lparr>rename_fault := Some EACCES\<rparr>) ?fn store_val1 fs_val1
      = (Some (Wrapf ''JSONFileDB.Write: rename: '' (PathError ''rename'' EACCES)), store_val1,
         fs_val1(?tmp \<mapsto> File (Val_key @ ''2}'')))
     \<and> (fs_val1(?tmp \<mapsto> File (Val_key @ ''2}''))) (path store_val1) = fs_val1 (path store_val1)"
    by blast
  from 1 2 show ?thesis by simp
qed

text \<open>
  Claim C2 as it is written says that the context of the wrapped error identifies the
  failing step. A write that fails and a close that fails are wrapped in the same
  context.
\<close>

theorem Write_error_context_counterexample:
  "fst (Write DB_codec (ok_env\<lparr>write_fault := Some (0, EOTHER ''ENOSPC'')\<rparr>) (\<lambda>d. (d\<lparr>Val := 2\<rparr>, None))
        store_val1 fs_val1)
     = Some (Wrapf ''JSONFileDB.Write: '' (PathError ''write'' (EOTHER ''ENOSPC'')))
   \<and> fst (Write DB_codec (ok_env\<lparr>close_fault := Some (EOTHER ''ENOSPC'')\<rparr>) (\<lambda>d. (d\<lparr>Val := 2\<rparr>, None))
        store_val1 fs_val1)
     = Some (Wrapf ''JSONFileDB.Write: '' (PathError ''close'' (EOTHER ''ENOSPC'')))
   \<and> context_of (Wrapf ''JSONFileDB.Write: '' (PathError ''write'' (EOTHER ''ENOSPC'')))
     = context_of (Wrapf ''JSONFileDB.Write: '' (PathError ''close'' (EOTHER ''ENOSPC'')))"
  by (simp add: run_defs)

section \<open>The stored bytes and the stored value\<close>

text \<open>
  Claim C3, as the code has it. In every store that \<^verbatim>\<open>New\<close>, \<^verbatim>\<open>Load\<close> and \<^verbatim>\<open>Write\<close> can
  produce, the stored value is what the stored bytes decode to, or the store still is
  as \<^verbatim>\<open>New\<close> set it up; every operation keeps this.
\<close>

theorem reachable_value_of_bytes:
  assumes "reachable c p"
  shows "value_of_bytes c p"
  using assms
proof (induction rule: reachable.induct)
  case (reach_New ev pth fs p fs')
  then show ?case by (rule New_value_of_bytes)
next
  case (reach_Load ev pth fs p)
  then show ?case by (rule Load_value_of_bytes)
next
  case (reach_Write p ev fn fs r p' fs')
  from Write_store_cases [OF reach_Write.hyps(2)] reach_Write.IH show ?case
    by (auto simp: value_of_bytes_def)
qed

theorem reachable_value_of_bytes_witness:
  "reachable DB_codec store_val1 \<and> value_of_bytes DB_codec store_val1"
proof -
  have n: "New DB_codec ok_env db_json fs_empty
      = (Inr \<lparr>path = db_json, data = Val_key @ ''0}'', db = \<lparr>Val = 0, hidden = 0\<rparr>\<rparr>,
         fs_empty(db_json \<mapsto> File (Val_key @ ''0}'')))"
    by (simp add: run_defs fun_upd_twist)
  have w: "Write DB_codec ok_env (\<lambda>d. (d\<lparr>Val := 1\<rparr>, None))
        \<lparr>path = db_json, data = Val_key @ ''0}'', db = \<lparr>Val = 0, hidden = 0\<rparr>\<rparr>
        (fs_empty(db_json \<mapsto> File (Val_key @ ''0}'')))
      = (None, store_val1, fs_val1)"
    by (simp add: run_defs fun_upd_twist)
  have r: "reachable DB_codec store_val1"
    by (rule reach_Write [OF reach_New [OF n] w])
  from r reachable_value_of_bytes [OF r] show ?thesis by simp
qed

text \<open>
  Claim C3 as it is written says that the stored bytes are the encoding of the stored
  value. \<^verbatim>\<open>Load\<close> keeps the bytes of the file as they are: from a file that holds \<^verbatim>\<open>{}\<close>
  it makes a store whose value encodes to \<^verbatim>\<open>{"Val":0}\<close>.
\<close>

theorem bytes_encode_value_counterexample:
  "Load DB_codec ok_env db_json (fs_empty(db_json \<mapsto> File ''{}''))
     = Inr \<lparr>path = db_json, data = ''{}'', db = \<lparr>Val = 0, hidden = 0\<rparr>\<rparr>
   \<and> reachable DB_codec \<lparr>path = db_json, data = ''{}'', db = \<lparr>Val = 0, hidden = 0\<rparr>\<rparr>
   \<and> Marshal DB_codec \<lparr>Val = 0, hidden = 0\<rparr> = Inr (Val_key @ ''0}'')
   \<and> Val_key @ ''0}'' \<noteq> ''{}''"
proof -
  have l: "Load DB_codec ok_env db_json (fs_empty(db_json \<mapsto> File ''{}''))
     = Inr \<lparr>path = db_json, data = ''{}'', db = \<lparr>Val = 0, hidden = 0\<rparr>\<rparr>"
    by (simp add: run_defs)
  from l reach_Load [OF l] show ?thesis
    by (simp add: run_defs)
qed

section \<open>Write: nothing to write\<close>

text \<open>
  Claim C4, as the code has it. When the bytes that encode the changed copy are the
  stored bytes, \<^verbatim>\<open>Write\<close> returns nil and leaves the file system and the store as they
  were. A function that changes nothing is such a case when the stored bytes are the
  encoding of what they decode to.
\<close>

theorem Write_no_change:
  assumes "Unmarshal c (data p) (zero c) = Inr d" and "fn d = (m, None)"
    and "Marshal c m = Inr (data p)"
  shows "Write c ev fn p fs = (None, p, fs)"
  using assms by (simp add: Write_def)

theorem Write_no_change_witness:
  "Write DB_codec ok_env (\<lambda>d. (d, None)) store_val1 fs_val1 = (None, store_val1, fs_val1)"
proof -
  have h1: "Unmarshal DB_codec (data store_val1) (zero DB_codec) = Inr \<lparr>Val = 1, hidden = 0\<rparr>"
    by (simp add: run_defs)
  have h2: "(\<lambda>d. (d, None)) \<lparr>Val = 1, hidden = 0\<rparr> = (\<lparr>Val = 1, hidden = 0\<rparr>, None :: error option)"
    by simp
  have h3: "Marshal DB_codec \<lparr>Val = 1, hidden = 0\<rparr> = Inr (data store_val1)"
    by (simp add: run_defs)
  from Write_no_change [where fn = "\<lambda>d. (d, None)", OF h1 h2 h3] show ?thesis .
qed

text \<open>
  Claim C4 as it is written says that a function that changes nothing never makes
  \<^verbatim>\<open>Write\<close> touch the file. \<^verbatim>\<open>New\<close> itself calls \<^verbatim>\<open>Write\<close> with such a function to make
  its file; and on the store that \<^verbatim>\<open>Load\<close> makes from a file holding \<^verbatim>\<open>{}\<close>, \<^verbatim>\<open>Write\<close>
  with such a function replaces the file by one that holds \<^verbatim>\<open>{"Val":0}\<close>.
\<close>

theorem Write_no_change_counterexample:
  "Write DB_codec ok_env (\<lambda>d. (d, None))
       \<lparr>path = db_json, data = ''{}'', db = zero DB_codec\<rparr> fs_empty
     = (None, \<lparr>path = db_json, data = Val_key @ ''0}'', db = \<lparr>Val = 0, hidden = 0\<rparr>\<rparr>,
        fs_empty(db_json \<mapsto> File (Val_key @ ''0}'')))
   \<and> fs_empty db_json = None
   \<and> Load DB_codec ok_env db_json (fs_empty(db_json \<mapsto> File ''{}''))
     = Inr \<lparr>path = db_json, data = ''{}'', db = \<lparr>Val = 0, hidden = 0\<rparr>\<rparr>
   \<and> Write DB_codec ok_env (\<lambda>d. (d, None))
       \<lparr>path = db_json, data = ''{}'', db = \<lparr>Val = 0, hidden = 0\<rparr>\<rparr>
       (fs_empty(db_json \<mapsto> File ''{}''))
     = (None, \<lparr>path = db_json, data = Val_key @ ''0}'', db = \<lparr>Val = 0, hidden = 0\<rparr>\<rparr>,
        fs_empty(db_json \<mapsto> File (Val_key @ ''0}'')))
   \<and> File (Val_key @ ''0}'') \<noteq> File ''{}''"
  by (simp add: run_defs fun_upd_twist)

section \<open>New, Write, Load: reading back what was written\<close>

text \<open>
  Claim C5 says that a value set by a successful \<^verbatim>\<open>Write\<close> after \<^verbatim>\<open>New\<close> is read back by
  \<^verbatim>\<open>Load\<close> of the same path. For \<^verbatim>\<open>type Empty struct{}\<close>, whose one value the codec
  carries exactly, \<^verbatim>\<open>New\<close> succeeds and makes no file, the \<^verbatim>\<open>Write\<close> succeeds and makes no
  file, and \<^verbatim>\<open>Load\<close> finds nothing at the path.
\<close>

theorem round_trip_Empty:
  "New Empty_codec ok_env db_json fs_empty
     = (Inr \<lparr>path = db_json, data = ''{}'', db = ()\<rparr>, fs_empty)
   \<and> Write Empty_codec ok_env (\<lambda>d. ((), None)) \<lparr>path = db_json, data = ''{}'', db = ()\<rparr> fs_empty
     = (None, \<lparr>path = db_json, data = ''{}'', db = ()\<rparr>, fs_empty)
   \<and> Load Empty_codec ok_env db_json fs_empty
     = Inl (Wrapf ''JSONFileDB.Load: '' (PathError ''open'' ENOENT))
   \<and> Marshal Empty_codec () = Inr ''{}''
   \<and> Unmarshal Empty_codec ''{}'' (zero Empty_codec) = Inr ()"
  by (simp add: run_defs)

text \<open>
  Where a file is written, the value comes back. Let \<open>v\<close> be a value that its encoding
  \<open>b\<close> decodes to. After \<^verbatim>\<open>New\<close> at a path and a successful \<^verbatim>\<open>Write\<close> that sets the state
  to \<open>v\<close>, where the first write of \<^verbatim>\<open>New\<close> or this one found bytes to write, \<^verbatim>\<open>Load\<close> of
  the path gives a store that holds \<open>v\<close>, when the read itself does not fail.
\<close>

lemma round_trip_when_written:
  assumes new: "New c ev1 pth fs = (Inr p, fs1)"
    and wr: "Write c ev2 (\<lambda>d. (v, None)) p fs1 = (None, p2, fs2)"
    and enc: "Marshal c v = Inr b" and dec: "Unmarshal c b (zero c) = Inr v"
    and mat: "data p \<noteq> ''{}'' \<or> b \<noteq> ''{}''"
    and rd: "read_fault ev3 = None" and tree: "\<not> under_file fs2 [] pth"
  shows "Load c ev3 pth fs2 = Inr \<lparr>path = pth, data = b, db = v\<rparr>
         \<and> Read visitor \<lparr>path = pth, data = b, db = v\<rparr> = visitor v"
proof -
  from New_cases [OF new] have np: "path p = pth"
    and nf: "data p \<noteq> ''{}'' \<Longrightarrow> fs1 pth = Some (File (data p))"
    by (auto split: if_splits)
  from Write_success_cases [OF wr] enc have
    w: "if b = data p then p2 = p \<and> fs2 = fs1 else fs2 (path p) = Some (File b)"
    by (auto split: if_splits)
  have "fs2 pth = Some (File b)"
  proof (cases "b = data p")
    case True
    with w nf mat show ?thesis by auto
  next
    case False
    with w np show ?thesis by simp
  qed
  with dec rd tree show ?thesis
    by (simp add: Load_def ReadFile_def Read_def)
qed

lemma round_trip_DB:
  "New DB_codec ok_env db_json fs_empty
     = (Inr \<lparr>path = db_json, data = Val_key @ ''0}'', db = \<lparr>Val = 0, hidden = 0\<rparr>\<rparr>,
        fs_empty(db_json \<mapsto> File (Val_key @ ''0}'')))
   \<and> Write DB_codec ok_env (\<lambda>d. (\<lparr>Val = 3, hidden = 0\<rparr>, None))
       \<lparr>path = db_json, data = Val_key @ ''0}'', db = \<lparr>Val = 0, hidden = 0\<rparr>\<rparr>
       (fs_empty(db_json \<mapsto> File (Val_key @ ''0}'')))
     = (None, \<lparr>path = db_json, data = Val_key @ ''3}'', db = \<lparr>Val = 3, hidden = 0\<rparr>\<rparr>,
        fs_empty(db_json \<mapsto> File (Val_key @ ''3}'')))
   \<and> Load DB_codec ok_env db_json (fs_empty(db_json \<mapsto> File (Val_key @ ''3}'')))
     = Inr \<lparr>path = db_json, data = Val_key @ ''3}'', db = \<lparr>Val = 3, hidden = 0\<rparr>\<rparr>"
  by (simp add: run_defs fun_upd_twist)

section \<open>Write: no memory shared with the caller\<close>

text \<open>
  Claim C6. Let \<open>A\<close> be addresses of memory that the caller holds when the function
  given to \<^verbatim>\<open>Write\<close> returns: what it passed into the function or built inside it. If
  the stored value held none of them before, then after a successful \<^verbatim>\<open>Write\<close> the stored
  value holds none of them, and however the caller changes that memory afterwards (the
  heap \<open>k\<close> differs from the heap \<open>h'\<close> that \<^verbatim>\<open>Write\<close> left only inside \<open>A\<close>), \<^verbatim>\<open>Read\<close>
  sees the same value. When \<^verbatim>\<open>Write\<close> has stored new bytes, the stored value holds no
  address at all that existed when the function returned.
\<close>

theorem Write_h_no_alias:
  assumes fresh: "fresh_decoder hc" and vr: "view_of_refs hc"
    and d: "hUnmarshal hc (data p) (hzero hc) h = Inr (d, h1)"
    and m: "fn d h1 = ((m, h2), None)"
    and w: "Write_h hc ev fn p fs h = (None, p', fs', h')"
    and A: "A \<subseteq> {..<length h2}"
    and pre: "refs hc (db p) \<inter> A = {}"
    and k: "\<forall>a. a \<notin> A \<longrightarrow> cell k a = cell h' a"
  shows "refs hc (db p') \<inter> A = {}
         \<and> Read_h (view hc) p' k = Read_h (view hc) p' h'
         \<and> (data p' \<noteq> data p \<longrightarrow> refs hc (db p') \<inter> {..<length h2} = {})"
proof -
  from Write_h_success_cases [OF d m w] obtain b where
    c: "if b = data p then p' = p \<and> fs' = fs \<and> h' = h2
        else data p' = b \<and> path p' = path p
             \<and> hUnmarshal hc b (hzero hc) h2 = Inr (db p', h')"
    by blast
  have new: "refs hc (db p') \<inter> {..<length h2} = {}" if "data p' \<noteq> data p"
  proof -
    from that c have "hUnmarshal hc b (hzero hc) h2 = Inr (db p', h')"
      by (auto split: if_splits)
    with fresh have "refs hc (db p') \<subseteq> {length h2 ..< length h'}"
      unfolding fresh_decoder_def by blast
    then show ?thesis by auto
  qed
  have old: "p' = p" if "data p' = data p"
    using that c by (auto split: if_splits)
  have disj: "refs hc (db p') \<inter> A = {}"
  proof (cases "data p' = data p")
    case True
    with old pre show ?thesis by simp
  next
    case False
    from new [OF False] A show ?thesis by auto
  qed
  then have "\<forall>a \<in> refs hc (db p'). cell k a = cell h' a"
    using k by auto
  with vr have "view hc (db p') k = view hc (db p') h'"
    unfolding view_of_refs_def by blast
  with disj new show ?thesis
    by (simp add: Read_h_def)
qed

text \<open>
  \<^verbatim>\<open>TestNoAlias\<close>: the caller's \<^verbatim>\<open>someVals\<close> is the cell at address 0, the function stores
  that slice in the copy, and after \<^verbatim>\<open>Write\<close> the caller sets \<^verbatim>\<open>someVals[0] = 10\<close>.
\<close>

theorem Write_h_no_alias_witness:
  "refs DBV_codec (db (fst (snd (Write_h DBV_codec ok_env
       (\<lambda>d h. ((d\<lparr>Vals := Slice 0 3\<rparr>, h), None)) store_vals fs_vals [[1, 2, 3]])))) \<inter> {0} = {}
   \<and> Read_h (view DBV_codec)
        (fst (snd (Write_h DBV_codec ok_env
           (\<lambda>d h. ((d\<lparr>Vals := Slice 0 3\<rparr>, h), None)) store_vals fs_vals [[1, 2, 3]])))
        [[10, 2, 3], [1, 2, 3]] = Some [1, 2, 3]
   \<and> view DBV_codec \<lparr>Vals = Slice 0 3\<rparr> [[10, 2, 3], [1, 2, 3]] = Some [10, 2, 3]"
proof -
  let ?fn = "\<lambda>d (h :: 64 word list list). ((d\<lparr>Vals := Slice 0 3\<rparr>, h), None :: error option)"
  let ?p' = "\<lparr>path = db_json, data = Vals_key @ ''[1,2,3]}'', db = \<lparr>Vals = Slice 1 3\<rparr>\<rparr>"
  have d: "hUnmarshal DBV_codec (data store_vals) (hzero DBV_codec) [[1, 2, 3]]
      = Inr (\<lparr>Vals = NilSlice\<rparr>, [[1, 2, 3]])"
    by (simp add: runh)
  have m: "?fn \<lparr>Vals = NilSlice\<rparr> [[1, 2, 3]] = ((\<lparr>Vals = Slice 0 3\<rparr>, [[1, 2, 3]]), None)"
    by simp
  obtain fs' where w: "Write_h DBV_codec ok_env ?fn store_vals fs_vals [[1, 2, 3]]
      = (None, ?p', fs', [[1, 2, 3], [1, 2, 3]])"
    by (simp add: runh run_defs)
  have A: "{0} \<subseteq> {..<length [[1, 2, 3 :: 64 word]]}"
    by simp
  have pre: "refs DBV_codec (db store_vals) \<inter> {0} = {}"
    by (simp add: runh)
  have k: "\<forall>a. a \<notin> {0} \<longrightarrow> cell [[10, 2, 3], [1, 2, 3 :: 64 word]] a = cell [[1, 2, 3], [1, 2, 3]] a"
    by (auto simp: cell_def nth_Cons')
  have v: "Read_h (view DBV_codec) ?p' [[1, 2, 3], [1, 2, 3]] = Some [1, 2, 3]"
    by (simp add: runh)
  have v2: "view DBV_codec \<lparr>Vals = Slice 0 3\<rparr> [[10, 2, 3], [1, 2, 3]] = Some [10, 2, 3]"
    by (simp add: runh)
  from Write_h_no_alias [where fn = ?fn, OF DBV_fresh DBV_view_of_refs d m w A pre k] v v2 w
  show ?thesis by simp
qed

section \<open>Load: the file is missing or does not decode\<close>

text \<open>
  Claim C7 says that the error of \<^verbatim>\<open>Load\<close> for a missing file passes the caller's check
  for a file that does not exist. The doc comment of \<^verbatim>\<open>Load\<close> names that check:
  \<^verbatim>\<open>os.IsNotExist\<close>, with which the caller is to decide to call \<^verbatim>\<open>New\<close>. The error that
  the system returns passes it; \<^verbatim>\<open>Load\<close> wraps the error with \<^verbatim>\<open>fmt.Errorf\<close>, and what it
  returns does not.
\<close>

theorem Load_missing_os_IsNotExist:
  "fs_empty db_json = None
   \<and> ReadFile ok_env db_json fs_empty = Inl (PathError ''open'' ENOENT)
   \<and> os_IsNotExist (PathError ''open'' ENOENT)
   \<and> Load DB_codec ok_env db_json fs_empty
     = Inl (Wrapf ''JSONFileDB.Load: '' (PathError ''open'' ENOENT))
   \<and> \<not> os_IsNotExist (Wrapf ''JSONFileDB.Load: '' (PathError ''open'' ENOENT))"
  by (simp add: run_defs)

text \<open>That check holds for no error of \<^verbatim>\<open>Load\<close>.\<close>

lemma Load_os_IsNotExist:
  assumes "Load c ev pth fs = Inl e"
  shows "\<not> os_IsNotExist e"
  using assms by (auto simp: Load_def split: sum.splits)

text \<open>
  The check of \<^verbatim>\<open>TestBadLoad\<close>, \<^verbatim>\<open>errors.Is(err, os.ErrNotExist)\<close>, looks through the
  wrapping. It holds when nothing is at the path and the path can be followed; it fails
  for the error of a file that does not decode, and for every error of \<^verbatim>\<open>Load\<close> when
  something is at the path or a regular file is on the way to it, unless the system
  itself reports the file as missing while it is read.
\<close>

lemma Load_errors_Is:
  "(fs pth = None \<and> \<not> under_file fs [] pth \<longrightarrow>
      Load c ev pth fs = Inl (Wrapf ''JSONFileDB.Load: '' (PathError ''open'' ENOENT))
      \<and> errors_Is (Wrapf ''JSONFileDB.Load: '' (PathError ''open'' ENOENT)) os_ErrNotExist)
   \<and> (fs pth = Some (File bs) \<and> \<not> under_file fs [] pth \<and> read_fault ev = None
        \<and> Unmarshal c bs (zero c) = Inl je \<longrightarrow>
      Load c ev pth fs = Inl (Wrapf ''JSONFileDB.Load: '' (JSONError je))
      \<and> \<not> errors_Is (Wrapf ''JSONFileDB.Load: '' (JSONError je)) os_ErrNotExist)
   \<and> ((fs pth \<noteq> None \<or> under_file fs [] pth) \<and> read_fault ev \<noteq> Some ENOENT
        \<and> Load c ev pth fs = Inl e \<longrightarrow>
      \<not> errors_Is e os_ErrNotExist)"
  by (auto simp: Load_def ReadFile_def split: option.splits node.splits sum.splits if_splits)

lemma Load_not_json:
  "Load DB_codec ok_env db_json (fs_empty(db_json \<mapsto> File ''not json''))
     = Inl (Wrapf ''JSONFileDB.Load: '' (JSONError (JSONErr ''invalid character'')))
   \<and> \<not> errors_Is (Wrapf ''JSONFileDB.Load: '' (JSONError (JSONErr ''invalid character'')))
         os_ErrNotExist"
  by (simp add: run_defs)

text \<open>A regular file where the path needs a directory: the error is not a missing file.\<close>

lemma Load_under_file:
  "Load DB_codec ok_env [''tmp'', ''afile'', ''db.json''] (fs_empty([''tmp'', ''afile''] \<mapsto> File []))
     = Inl (Wrapf ''JSONFileDB.Load: '' (PathError ''open'' (EOTHER ''ENOTDIR'')))
   \<and> \<not> errors_Is (Wrapf ''JSONFileDB.Load: '' (PathError ''open'' (EOTHER ''ENOTDIR'')))
         os_ErrNotExist"
  by (simp add: run_defs)

section \<open>New: the file it makes\<close>

text \<open>
  Claim C8 says that after a successful \<^verbatim>\<open>New\<close> the file at the path holds the encoding
  of the empty value and the store holds that value with those bytes. For
  \<^verbatim>\<open>type Empty struct{}\<close> the store is as claimed, and there is no file: the first write
  of \<^verbatim>\<open>New\<close> encodes the value as \<^verbatim>\<open>{}\<close>, finds the bytes unchanged and returns before any
  file operation.
\<close>

theorem New_makes_no_file_Empty:
  "fs_empty db_json = None
   \<and> New Empty_codec ok_env db_json fs_empty
     = (Inr \<lparr>path = db_json, data = ''{}'', db = zero Empty_codec\<rparr>, fs_empty)
   \<and> Marshal Empty_codec (zero Empty_codec) = Inr ''{}''"
  by (simp add: run_defs)

text \<open>
  For a codec that decodes \<^verbatim>\<open>{}\<close> to the zero value and carries the zero value exactly,
  the store that \<^verbatim>\<open>New\<close> returns holds the zero value and its encoding \<open>b\<close>; the file
  at the path holds \<open>b\<close> whenever \<open>b\<close> is not \<^verbatim>\<open>{}\<close> itself.
\<close>

lemma New_store_and_file:
  assumes "Unmarshal c ''{}'' (zero c) = Inr (zero c)" and "Marshal c (zero c) = Inr b"
    and "Unmarshal c b (zero c) = Inr (zero c)"
    and "New c ev pth fs = (Inr p, fs')"
  shows "p = \<lparr>path = pth, data = b, db = zero c\<rparr> \<and> (b \<noteq> ''{}'' \<longrightarrow> fs' pth = Some (File b))"
  using New_cases [OF assms(4)] assms(1-3) by (auto split: if_splits)

lemma New_materialises:
  assumes "Unmarshal c ''{}'' (zero c) = Inr d" and "Marshal c d = Inr b" and "b \<noteq> ''{}''"
    and "New c ev pth fs = (Inr p, fs')"
  shows "fs' pth = Some (File b) \<and> data p = b \<and> Unmarshal c b (zero c) = Inr (db p)
         \<and> path p = pth"
  using New_cases [OF assms(4)] assms(1-3) by auto

text \<open>For the type of the tests: the file and the store hold \<^verbatim>\<open>{"Val":0}\<close>.\<close>

lemma New_DB:
  "New DB_codec ok_env db_json fs_empty
     = (Inr \<lparr>path = db_json, data = Val_key @ ''0}'', db = zero DB_codec\<rparr>,
        fs_empty(db_json \<mapsto> File (Val_key @ ''0}'')))
   \<and> Marshal DB_codec (zero DB_codec) = Inr (Val_key @ ''0}'')"
  by (simp add: run_defs fun_upd_twist)

section \<open>New: a directory at the path\<close>

text \<open>
  When \<^verbatim>\<open>New\<close> has bytes to write, a directory at the path makes it fail: the rename
  cannot replace a directory.
\<close>

lemma New_on_directory:
  assumes dir: "fs pth = Some Dir"
    and d: "Unmarshal c ''{}'' (zero c) = Inr d" and b: "Marshal c d = Inr b" and ne: "b \<noteq> ''{}''"
  shows "\<exists>e fs'. New c ev pth fs = (Inl (Wrapf ''JSONFileDB.New: '' e), fs')"
proof (cases "New c ev pth fs")
  case (Pair r fs')
  show ?thesis
  proof (cases r)
    case (Inl e)
    with Pair show ?thesis
      by (auto simp: New_def split: prod.splits option.splits)
  next
    case (Inr p)
    from Pair Inr have w: "Write c ev (\<lambda>d. (d, None)) \<lparr>path = pth, data = ''{}'', db = zero c\<rparr> fs = (None, p, fs')"
      by (auto simp: New_def split: prod.splits option.splits)
    from w d b ne obtain f fs1 where ct:
      "CreateTemp ev (Dir_of pth) (Base pth @ ''.tmp'') fs = Inr (f, fs1)"
      by (auto simp: Write_def split: sum.splits)
    from CreateTemp_Inr [OF ct] have fne: "f \<noteq> pth" and fs1: "fs1 = fs(f \<mapsto> File [])"
      by simp_all
    obtain werr fs2 where fw: "file_Write ev f b fs1 = (werr, fs2)"
      by (cases "file_Write ev f b fs1")
    then have "fs2 pth = Some Dir"
      using fne fs1 dir by (auto simp: file_Write_def split: option.splits prod.splits)
    then have "\<exists>e. Rename ev f pth fs2 = Inl e"
      by (simp add: Rename_def split: option.splits)
    with w d b ne ct fw have False
      by (auto simp: Write_def split: option.splits sum.splits)
    then show ?thesis ..
  qed
qed

text \<open>As in \<^verbatim>\<open>TestBadNew\<close>, for the type of the tests.\<close>

lemma New_on_directory_DB:
  "fst (New DB_codec ok_env [''tmp''] fs_empty)
     = Inl (Wrapf ''JSONFileDB.New: ''
         (Wrapf ''JSONFileDB.Write: rename: '' (PathError ''rename'' EEXIST)))
   \<and> errors_Is (Wrapf ''JSONFileDB.New: ''
         (Wrapf ''JSONFileDB.Write: rename: '' (PathError ''rename'' EEXIST))) os_ErrExist"
  by (simp add: run_defs)

text \<open>
  Claim C9 says that \<^verbatim>\<open>New\<close> on a path that is a directory returns an error and no
  store. For a stored type that is written as \<^verbatim>\<open>{}\<close>, the first write of \<^verbatim>\<open>New\<close> finds the
  bytes unchanged and touches no file: \<^verbatim>\<open>New\<close> returns a store, and the directory is
  still there.
\<close>

theorem New_on_directory_Empty:
  "fs_empty [''tmp''] = Some Dir
   \<and> New Empty_codec ok_env [''tmp''] fs_empty
     = (Inr \<lparr>path = [''tmp''], data = ''{}'', db = ()\<rparr>, fs_empty)"
  by (simp add: run_defs)

section \<open>Write: the value that is committed\<close>

text \<open>
  Claim C10. After a successful \<^verbatim>\<open>Write\<close> whose new bytes \<open>b\<close>, the encoding of the
  value \<open>m\<close> that the function left, differ from the stored bytes, the store holds
  \<open>b\<close> and, as its value, what \<open>b\<close> decodes to, not \<open>m\<close> itself: what the encoding
  does not carry is dropped.
\<close>

theorem Write_commit_value:
  assumes "Unmarshal c (data p) (zero c) = Inr d" and "fn d = (m, None)"
    and "Marshal c m = Inr b" and "b \<noteq> data p"
    and "Write c ev fn p fs = (None, p', fs')"
  shows "Unmarshal c b (zero c) = Inr (db p') \<and> data p' = b \<and> path p' = path p"
  using assms
  by (auto simp: Write_def split: sum.splits prod.splits option.splits if_splits)

theorem Write_commit_value_witness:
  "fst (Write DB_codec ok_env (\<lambda>d. (d\<lparr>Val := 2, hidden := 7\<rparr>, None)) store_val1 fs_val1) = None
   \<and> db (fst (snd (Write DB_codec ok_env (\<lambda>d. (d\<lparr>Val := 2, hidden := 7\<rparr>, None))
         store_val1 fs_val1))) = \<lparr>Val = 2, hidden = 0\<rparr>
   \<and> data (fst (snd (Write DB_codec ok_env (\<lambda>d. (d\<lparr>Val := 2, hidden := 7\<rparr>, None))
         store_val1 fs_val1))) = Val_key @ ''2}''
   \<and> \<lparr>Val = 2, hidden = 0\<rparr> \<noteq> \<lparr>Val = 2, hidden = 7\<rparr>"
proof -
  let ?fn = "\<lambda>d. (d\<lparr>Val := 2, hidden := 7\<rparr>, None :: error option)"
  have h1: "Unmarshal DB_codec (data store_val1) (zero DB_codec) = Inr \<lparr>Val = 1, hidden = 0\<rparr>"
    by (simp add: run_defs)
  have h2: "?fn \<lparr>Val = 1, hidden = 0\<rparr> = (\<lparr>Val = 2, hidden = 7\<rparr>, None)"
    by simp
  have h3: "Marshal DB_codec \<lparr>Val = 2, hidden = 7\<rparr> = Inr (Val_key @ ''2}'')"
    by (simp add: run_defs)
  have h4: "Val_key @ ''2}'' \<noteq> data store_val1"
    by (simp add: run_defs)
  obtain r p' fs' where w: "Write DB_codec ok_env ?fn store_val1 fs_val1 = (r, p', fs')"
    by (cases "Write DB_codec ok_env ?fn store_val1 fs_val1")
  then have r: "r = None"
    by (simp add: run_defs)
  from Write_commit_value [where fn = ?fn, OF h1 h2 h3 h4 w [unfolded r]]
  have "Unmarshal DB_codec (Val_key @ ''2}'') (zero DB_codec) = Inr (db p') \<and> data p' = Val_key @ ''2}''"
    by simp
  moreover have "Unmarshal DB_codec (Val_key @ ''2}'') (zero DB_codec) = Inr \<lparr>Val = 2, hidden = 0\<rparr>"
    by (simp add: run_defs)
  ultimately have "db p' = \<lparr>Val = 2, hidden = 0\<rparr> \<and> data p' = Val_key @ ''2}''"
    by simp
  then show ?thesis
    using w r by simp
qed

end
